theory Spec2Isabelle
  imports Main
begin

section \<open>Exceptions and Python values\<close>

text \<open>
  The two modules \<^verbatim>\<open>pdf_processor.py\<close> and \<^verbatim>\<open>indexing_agent.py\<close> are embedded as
  functions over an explicit description of what the outside world answers: the file
  system and the PDF library for the extractor, the directory creation and the three
  constructors for the engine binding. A Python exception of class \<^verbatim>\<open>Exception\<close> is a
  value of type \<open>exn\<close>; a function that may raise returns \<open>exn + 'a\<close>, with \<open>Inl\<close> for
  the raised exception. The classes kept apart are the ones the handlers of the source
  tell apart; every other subclass of \<^verbatim>\<open>Exception\<close> is \<open>OtherException\<close>.
  Interrupts and exits, which \<^verbatim>\<open>except Exception\<close> does not catch, are not modelled, and
  neither is the output of \<^verbatim>\<open>print\<close>. A Python string is a \<open>string\<close>, its length the
  length of the list.
\<close>

datatype exn =
    FileNotFoundError string
  | PdfReadError string
  | OtherException string

text \<open>\<^verbatim>\<open>str(e)\<close>, as the f-strings of the handlers use it.\<close>

fun str_exn :: "exn \<Rightarrow> string" where
  "str_exn (FileNotFoundError msg) = msg"
| "str_exn (PdfReadError msg) = msg"
| "str_exn (OtherException msg) = msg"

text \<open>\<^verbatim>\<open>try: body except Exception as e: handler\<close>.\<close>

definition try_except :: "exn + 'a \<Rightarrow> (exn \<Rightarrow> exn + 'a) \<Rightarrow> exn + 'a" where
  "try_except body handler = (case body of Inl e \<Rightarrow> handler e | Inr v \<Rightarrow> Inr v)"

text \<open>The values stored in the metadata dictionary: \<^verbatim>\<open>None\<close>, a string or an integer.\<close>

datatype pyval = PyNone | PyStr string | PyInt int

text \<open>A dictionary with string keys, in insertion order.\<close>

type_synonym pydict = "(string \<times> pyval) list"

text \<open>
  The slice \<^verbatim>\<open>xs[:n]\<close>: the first \<open>n\<close> elements, and for a negative \<open>n\<close> all but the
  last \<open>-n\<close> elements.
\<close>

definition slice_to :: "'a list \<Rightarrow> int \<Rightarrow> 'a list" where
  "slice_to xs n = (if n < 0 then take (nat (int (length xs) + n)) xs else take (nat n) xs)"

text \<open>\<^verbatim>\<open>sep.join(parts)\<close>.\<close>

fun join :: "string \<Rightarrow> string list \<Rightarrow> string" where
  "join sep [] = []"
| "join sep [x] = x"
| "join sep (x # y # ys) = x @ sep @ join sep (y # ys)"

section \<open>The PDF library and the file system\<close>

text \<open>
  \<^verbatim>\<open>reader.metadata\<close>: the five named properties, each possibly \<^verbatim>\<open>None\<close>, and the raw
  dictionary behind \<^verbatim>\<open>get_object()\<close>.
\<close>

record document_information =
  title :: "string option"
  author :: "string option"
  subject :: "string option"
  creator :: "string option"
  producer :: "string option"
  get_object :: "(string \<times> string) list"

text \<open>
  A \<^verbatim>\<open>PyPDF2.PdfReader\<close>, as far as the two extractors look at it: the encryption flag,
  whether \<^verbatim>\<open>decrypt('')\<close> raises, the page list (reading it may raise; each page holds
  what its \<^verbatim>\<open>extract_text()\<close> returns or raises) and the document information
  (\<open>None\<close> when it is \<^verbatim>\<open>None\<close> or empty, so falsy).
\<close>

record pdf_reader =
  is_encrypted :: bool
  decrypt :: "exn option"
  pages :: "exn + (exn + string) list"
  reader_metadata :: "exn + document_information option"

text \<open>
  What \<^verbatim>\<open>open(pdf_path, "rb")\<close> followed by \<^verbatim>\<open>PyPDF2.PdfReader(file)\<close> gives for a
  path: the exception one of them raises, or the reader.
\<close>

type_synonym filesystem = "string \<Rightarrow> exn + pdf_reader"

section \<open>\<^verbatim>\<open>pdf_processor.py\<close>\<close>

text \<open>
  The loop over the pages of \<^verbatim>\<open>extract_text_from_pdf\<close>, with \<open>text_parts\<close> as the
  accumulator: a page whose text is falsy is skipped, a page that raises ends the loop.
\<close>

fun extract_pages :: "(exn + string) list \<Rightarrow> string list \<Rightarrow> exn + string list" where
  "extract_pages [] text_parts = Inr text_parts"
| "extract_pages (page # rest) text_parts =
     (case page of
        Inl e \<Rightarrow> Inl e
      | Inr page_text \<Rightarrow>
          extract_pages rest (if page_text \<noteq> [] then text_parts @ [page_text] else text_parts))"

definition read_text :: "pdf_reader \<Rightarrow> exn + string" where
  "read_text reader =
     (case pages reader of
        Inl e \<Rightarrow> Inl e
      | Inr ps \<Rightarrow>
          if ps \<noteq> [] then
            (case extract_pages ps [] of
               Inl e \<Rightarrow> Inl e
             | Inr text_parts \<Rightarrow> Inr (join [CHR 0x0A] text_parts))
          else Inr [])"

definition extract_text_from_pdf :: "filesystem \<Rightarrow> string \<Rightarrow> string \<Rightarrow> exn + string" where
  "extract_text_from_pdf fs pdf_path method =
     (if method = ''pypdf2'' then
        try_except
          (case fs pdf_path of
             Inl e \<Rightarrow> Inl e
           | Inr reader \<Rightarrow>
               if is_encrypted reader \<and> decrypt reader \<noteq> None then Inr []
               else read_text reader)
          (\<lambda>e. case e of
                 FileNotFoundError _ \<Rightarrow> Inr []
               | PdfReadError _ \<Rightarrow> Inr []
               | OtherException _ \<Rightarrow> Inr [])
      else Inr [])"

definition str_or_none :: "string option \<Rightarrow> pyval" where
  "str_or_none x = (case x of None \<Rightarrow> PyNone | Some s \<Rightarrow> PyStr s)"

text \<open>\<^verbatim>\<open>str(obj) if obj else None\<close> for \<^verbatim>\<open>obj = raw_metadata.get(key)\<close>.\<close>

definition date_entry :: "(string \<times> string) list \<Rightarrow> string \<Rightarrow> pyval" where
  "date_entry raw_metadata key =
     (case map_of raw_metadata key of
        None \<Rightarrow> PyNone
      | Some obj \<Rightarrow> if obj \<noteq> [] then PyStr obj else PyNone)"

definition metadata_entries :: "document_information \<Rightarrow> pydict" where
  "metadata_entries metadata =
     [(''Title'', str_or_none (title metadata)),
      (''Author'', str_or_none (author metadata)),
      (''Subject'', str_or_none (subject metadata)),
      (''Creator'', str_or_none (creator metadata)),
      (''Producer'', str_or_none (producer metadata))] @
     (if get_object metadata \<noteq> [] then
        [(''CreationDate'', date_entry (get_object metadata) ''/CreationDate''),
         (''ModDate'', date_entry (get_object metadata) ''/ModDate'')]
      else [(''CreationDate'', PyNone), (''ModDate'', PyNone)])"

definition read_metadata :: "pdf_reader \<Rightarrow> exn + pydict" where
  "read_metadata reader =
     (case reader_metadata reader of
        Inl e \<Rightarrow> Inl e
      | Inr metadata \<Rightarrow>
          (case pages reader of
             Inl e \<Rightarrow> Inl e
           | Inr ps \<Rightarrow>
               Inr ((case metadata of
                       Some info \<Rightarrow> metadata_entries info
                     | None \<Rightarrow> []) @
                    [(''PageCount'', PyInt (int (length ps)))])))"

definition error_dict :: "string \<Rightarrow> string \<Rightarrow> pydict" where
  "error_dict msg pdf_path = [(''Error'', PyStr msg), (''FilePath'', PyStr pdf_path)]"

definition extract_metadata_from_pdf :: "filesystem \<Rightarrow> string \<Rightarrow> exn + pydict" where
  "extract_metadata_from_pdf fs pdf_path =
     try_except
       (case fs pdf_path of
          Inl e \<Rightarrow> Inl e
        | Inr reader \<Rightarrow>
            if is_encrypted reader \<and> decrypt reader \<noteq> None
            then Inr (error_dict ''Encrypted PDF, decryption failed.'' pdf_path)
            else read_metadata reader)
       (\<lambda>e. case e of
              FileNotFoundError _ \<Rightarrow> Inr (error_dict ''File not found.'' pdf_path)
            | PdfReadError _ \<Rightarrow>
                Inr (error_dict (''PyPDF2 PdfReadError: '' @ str_exn e) pdf_path)
            | OtherException _ \<Rightarrow>
                Inr (error_dict (''Unexpected error: '' @ str_exn e) pdf_path))"

section \<open>\<^verbatim>\<open>indexing_agent.py\<close>\<close>

text \<open>
  A constructed \<^verbatim>\<open>LightRAG\<close> object: its identity (the number of objects constructed
  before it) and the working directory it is bound to.
\<close>

datatype engine = Engine (engine_id: nat) (engine_working_dir: string)

record agent =
  api_key :: string
  lightrag_instance :: "engine option"

text \<open>
  The dictionary \<^verbatim>\<open>process_pdf_document\<close> returns, one optional field for each key the
  source may set.
\<close>

record document_record =
  error :: "string option"
  path :: "string option"
  file_path :: "string option"
  metadata :: "pydict option"
  extracted_text_snippet :: "string option"
  full_text_char_count :: "int option"
  summary :: "string option"
  classification :: "string option"
  indexing_status :: "string option"

definition empty_record :: document_record where
  "empty_record =
     \<lparr>error = None, path = None, file_path = None, metadata = None,
      extracted_text_snippet = None, full_text_char_count = None, summary = None,
      classification = None, indexing_status = None\<rparr>"

text \<open>
  \<^verbatim>\<open>IndexingAgent._summarize_text\<close> and \<^verbatim>\<open>IndexingAgent._classify_document\<close>, named
  without the leading underscore. \<open>max_chars\<close> is a Python integer, so it may be negative.
\<close>

definition summarize_text :: "string \<Rightarrow> int \<Rightarrow> string" where
  "summarize_text text max_chars =
     (if text = [] then ''No text provided for summarization.''
      else ''[Placeholder Summary]: '' @
           (if int (length text) > max_chars then slice_to text max_chars @ ''...'' else text))"

definition classify_document :: "string \<Rightarrow> string" where
  "classify_document text =
     (if text = [] then ''No text provided for classification.''
      else ''[Placeholder Classification]: General Legal Document'')"

text \<open>
  \<^verbatim>\<open>process_pdf_document\<close>: the two extractor calls inside \<^verbatim>\<open>try\<close>, whose handler returns
  the error dictionary, then the derivation and the result dictionary.
\<close>

definition process_pdf_document :: "filesystem \<Rightarrow> agent \<Rightarrow> string \<Rightarrow> exn + document_record" where
  "process_pdf_document fs self pdf_path =
     (case try_except
             (case extract_text_from_pdf fs pdf_path ''pypdf2'' of
                Inl e \<Rightarrow> Inl e
              | Inr text \<Rightarrow>
                  (case extract_metadata_from_pdf fs pdf_path of
                     Inl e \<Rightarrow> Inl e
                   | Inr md \<Rightarrow> Inr (Inr (text, md))))
             (\<lambda>e. Inr (Inl (empty_record\<lparr>error := Some (str_exn e), path := Some pdf_path\<rparr>)))
      of
        Inl e \<Rightarrow> Inl e
      | Inr (Inl error_record) \<Rightarrow> Inr error_record
      | Inr (Inr (text, md)) \<Rightarrow>
          Inr (empty_record
                 \<lparr>file_path := Some pdf_path,
                  metadata := Some md,
                  extracted_text_snippet :=
                    Some (if text \<noteq> [] then take 200 text @ ''...'' else ''N/A''),
                  full_text_char_count := Some (if text \<noteq> [] then int (length text) else 0),
                  summary := Some (summarize_text text 500),
                  classification := Some (classify_document text)\<rparr>))"

text \<open>
  \<^verbatim>\<open>aprocess_pdf_document_and_index\<close>, which returns \<^verbatim>\<open>None\<close> or a dictionary. The file
  system is the same for the extraction inside \<^verbatim>\<open>process_pdf_document\<close> and for the second
  extraction: the file does not change during the call. The body of the inner \<^verbatim>\<open>try\<close>
  only prints and sets the status.
\<close>

definition aprocess_pdf_document_and_index ::
  "filesystem \<Rightarrow> agent \<Rightarrow> string \<Rightarrow> exn + document_record option" where
  "aprocess_pdf_document_and_index fs self pdf_path =
     (if lightrag_instance self = None then Inr None
      else
        (case process_pdf_document fs self pdf_path of
           Inl e \<Rightarrow> Inl e
         | Inr processed_info \<Rightarrow>
             if error processed_info \<noteq> None then Inr (Some processed_info)
             else
               (case extract_text_from_pdf fs pdf_path ''pypdf2'' of
                  Inl e \<Rightarrow> Inl e
                | Inr full_text \<Rightarrow>
                    if full_text \<noteq> [] then
                      (case try_except
                              (Inr (processed_info
                                      \<lparr>indexing_status :=
                                         Some ''Simulated as successfully indexed by LightRAG''\<rparr>))
                              (\<lambda>e. Inr (processed_info
                                           \<lparr>indexing_status := Some (''Failed: '' @ str_exn e)\<rparr>))
                       of
                         Inl e \<Rightarrow> Inl e
                       | Inr info \<Rightarrow> Inr (Some info))
                    else
                      Inr (Some (processed_info\<lparr>indexing_status := Some ''Skipped (no text)''\<rparr>)))))"

text \<open>
  What the outside world answers during one call of \<^verbatim>\<open>initialize_lightrag\<close>: whether
  \<^verbatim>\<open>os.makedirs\<close> and each of the three constructors raise.
\<close>

record construction =
  makedirs_result :: "exn option"
  embedder_result :: "exn option"
  llm_result :: "exn option"
  lightrag_result :: "exn option"

text \<open>
  The agent together with the number of \<^verbatim>\<open>LightRAG\<close> objects constructed so far, which
  gives each new object its identity.
\<close>

record process_state =
  this_agent :: agent
  engines_constructed :: nat

text \<open>
  \<^verbatim>\<open>initialize_lightrag\<close>: \<^verbatim>\<open>os.makedirs\<close> stands before the \<^verbatim>\<open>try\<close>, so what it raises
  reaches the caller; what a constructor raises is caught and resets the binding.
\<close>

definition initialize_lightrag ::
  "construction \<Rightarrow> string \<Rightarrow> process_state \<Rightarrow> exn + process_state" where
  "initialize_lightrag world working_dir s =
     (case makedirs_result world of
        Some e \<Rightarrow> Inl e
      | None \<Rightarrow>
          try_except
            (case embedder_result world of
               Some e \<Rightarrow> Inl e
             | None \<Rightarrow>
                 (case llm_result world of
                    Some e \<Rightarrow> Inl e
                  | None \<Rightarrow>
                      (case lightrag_result world of
                         Some e \<Rightarrow> Inl e
                       | None \<Rightarrow>
                           Inr (s\<lparr>this_agent :=
                                    (this_agent s)
                                      \<lparr>lightrag_instance :=
                                         Some (Engine (engines_constructed s) working_dir)\<rparr>,
                                  engines_constructed := Suc (engines_constructed s)\<rparr>))))
            (\<lambda>e. Inr (s\<lparr>this_agent := (this_agent s)\<lparr>lightrag_instance := None\<rparr>\<rparr>)))"

section \<open>Concrete documents and agents\<close>

definition hello_reader :: pdf_reader where
  "hello_reader =
     \<lparr>is_encrypted = False, decrypt = None, pages = Inr [Inr ''Hello World''],
      reader_metadata = Inr None\<rparr>"

definition blank_reader :: pdf_reader where
  "blank_reader =
     \<lparr>is_encrypted = False, decrypt = None, pages = Inr [], reader_metadata = Inr None\<rparr>"

definition locked_reader :: pdf_reader where
  "locked_reader =
     \<lparr>is_encrypted = True, decrypt = Some (OtherException ''bad password''),
      pages = Inr [Inr ''secret''], reader_metadata = Inr None\<rparr>"

text \<open>
  A file system with one readable document, one document without pages, one encrypted
  document that the empty password does not open, one file that is not a PDF, and
  nothing else.
\<close>

definition sample_fs :: filesystem where
  "sample_fs p =
     (if p = ''hello.pdf'' then Inr hello_reader
      else if p = ''blank.pdf'' then Inr blank_reader
      else if p = ''locked.pdf'' then Inr locked_reader
      else if p = ''broken.pdf'' then Inl (PdfReadError ''EOF marker not found'')
      else Inl (FileNotFoundError ''No such file or directory''))"

definition new_agent :: agent where
  "new_agent = \<lparr>api_key = ''sk-test'', lightrag_instance = None\<rparr>"

definition ready_agent :: agent where
  "ready_agent = \<lparr>api_key = ''sk-test'', lightrag_instance = Some (Engine 0 ''./lightrag_data'')\<rparr>"

definition all_succeed :: construction where
  "all_succeed =
     \<lparr>makedirs_result = None, embedder_result = None, llm_result = None,
      lightrag_result = None\<rparr>"

definition embedder_fails :: construction where
  "embedder_fails = all_succeed\<lparr>embedder_result := Some (OtherException ''invalid api key'')\<rparr>"

definition fresh_state :: process_state where
  "fresh_state = \<lparr>this_agent = new_agent, engines_constructed = 0\<rparr>"

definition ready_state :: process_state where
  "ready_state = \<lparr>this_agent = ready_agent, engines_constructed = 1\<rparr>"

definition rebuilt_state :: process_state where
  "rebuilt_state =
     \<lparr>this_agent = ready_agent\<lparr>lightrag_instance := Some (Engine 1 ''./lightrag_data'')\<rparr>,
      engines_constructed = 2\<rparr>"

definition reset_state :: process_state where
  "reset_state = \<lparr>this_agent = new_agent, engines_constructed = 1\<rparr>"

definition hello_processed :: document_record where
  "hello_processed =
     \<lparr>error = None, path = None, file_path = Some ''hello.pdf'',
      metadata = Some [(''PageCount'', PyInt 1)],
      extracted_text_snippet = Some ''Hello World...'',
      full_text_char_count = Some 11,
      summary = Some ''[Placeholder Summary]: Hello World'',
      classification = Some ''[Placeholder Classification]: General Legal Document'',
      indexing_status = None\<rparr>"

definition hello_indexed :: document_record where
  "hello_indexed =
     hello_processed\<lparr>indexing_status := Some ''Simulated as successfully indexed by LightRAG''\<rparr>"

definition missing_processed :: document_record where
  "missing_processed =
     \<lparr>error = None, path = None, file_path = Some ''nowhere.pdf'',
      metadata = Some [(''Error'', PyStr ''File not found.''), (''FilePath'', PyStr ''nowhere.pdf'')],
      extracted_text_snippet = Some ''N/A'',
      full_text_char_count = Some 0,
      summary = Some ''No text provided for summarization.'',
      classification = Some ''No text provided for classification.'',
      indexing_status = None\<rparr>"






section \<open>Unfolding rules and shared lemmas\<close>

lemmas sample_defs =
  sample_fs_def hello_reader_def blank_reader_def locked_reader_def new_agent_def
  ready_agent_def all_succeed_def embedder_fails_def fresh_state_def ready_state_def
  rebuilt_state_def reset_state_def hello_processed_def hello_indexed_def
  missing_processed_def

lemmas extractor_defs =
  extract_text_from_pdf_def extract_metadata_from_pdf_def try_except_def read_text_def
  read_metadata_def error_dict_def

lemmas agent_defs =
  process_pdf_document_def aprocess_pdf_document_and_index_def empty_record_def
  summarize_text_def classify_document_def slice_to_def

text \<open>Every handler of the two extractors returns a value, so neither of them raises.\<close>

lemma extract_text_never_raises: "\<exists>t. extract_text_from_pdf fs p m = Inr t"
  by (auto simp: extract_text_from_pdf_def try_except_def split: sum.splits exn.splits)

lemma extract_metadata_never_raises: "\<exists>d. extract_metadata_from_pdf fs p = Inr d"
  by (auto simp: extract_metadata_from_pdf_def try_except_def split: sum.splits exn.splits)

text \<open>
  Hence the handler of \<^verbatim>\<open>process_pdf_document\<close> is never entered, and the record it
  returns is the one built from the extracted text and metadata.
\<close>

lemma process_pdf_document_result:
  assumes "extract_text_from_pdf fs p ''pypdf2'' = Inr t"
    and "extract_metadata_from_pdf fs p = Inr d"
  shows "process_pdf_document fs self p =
     Inr (empty_record
            \<lparr>file_path := Some p, metadata := Some d,
             extracted_text_snippet := Some (if t \<noteq> [] then take 200 t @ ''...'' else ''N/A''),
             full_text_char_count := Some (if t \<noteq> [] then int (length t) else 0),
             summary := Some (summarize_text t 500),
             classification := Some (classify_document t)\<rparr>)"
  using assms by (simp add: process_pdf_document_def try_except_def)

lemma aprocess_result:
  assumes "extract_text_from_pdf fs p ''pypdf2'' = Inr t"
    and "extract_metadata_from_pdf fs p = Inr d"
    and "lightrag_instance self \<noteq> None"
  shows "aprocess_pdf_document_and_index fs self p =
     Inr (Some (empty_record
            \<lparr>file_path := Some p, metadata := Some d,
             extracted_text_snippet := Some (if t \<noteq> [] then take 200 t @ ''...'' else ''N/A''),
             full_text_char_count := Some (if t \<noteq> [] then int (length t) else 0),
             summary := Some (summarize_text t 500),
             classification := Some (classify_document t),
             indexing_status :=
               Some (if t \<noteq> [] then ''Simulated as successfully indexed by LightRAG''
                     else ''Skipped (no text)'')\<rparr>))"
  using assms process_pdf_document_result [OF assms(1,2), of self]
  by (simp add: aprocess_pdf_document_and_index_def try_except_def empty_record_def)

section \<open>The agent without an engine binding\<close>

text \<open>
  Claim C1, as amended. The claim asks for a record with a skipped-not-initialized
  status and a derived summary and classification when the engine binding is missing.
  The guard at the head of \<^verbatim>\<open>aprocess_pdf_document_and_index\<close> returns \<^verbatim>\<open>None\<close> before
  anything is extracted or derived: for every file system and every path, an agent whose
  \<^verbatim>\<open>lightrag_instance\<close> is \<^verbatim>\<open>None\<close> gets \<^verbatim>\<open>None\<close> back, without an exception.
\<close>

theorem aprocess_without_engine_returns_none:
  "lightrag_instance self = None \<Longrightarrow>
   aprocess_pdf_document_and_index fs self pdf_path = Inr None"
  by (simp add: aprocess_pdf_document_and_index_def)

theorem aprocess_without_engine_returns_none_witness:
  "lightrag_instance new_agent = None \<and>
   aprocess_pdf_document_and_index sample_fs new_agent ''hello.pdf'' = Inr None"
  using aprocess_without_engine_returns_none [of new_agent sample_fs "''hello.pdf''"]
  by (simp add: new_agent_def)

text \<open>
  The claim as stated fails on a readable document: no record comes back, so there is no
  status, no summary and no classification.
\<close>

theorem aprocess_without_engine_counterexample:
  "aprocess_pdf_document_and_index sample_fs new_agent ''hello.pdf'' \<noteq> Inr (Some hello_indexed) \<and>
   aprocess_pdf_document_and_index sample_fs new_agent ''hello.pdf'' = Inr None"
  by (simp add: aprocess_pdf_document_and_index_def new_agent_def)

section \<open>The shape of the returned records\<close>

text \<open>
  Claim C2, as amended. Neither operation raises. A record returned by either of them has
  no error field (the extractors turn every failure into a value, so the error branch is
  never taken, and the first half of the claimed invariant holds with nothing to check)
  and has both summary and classification set. A record returned by
  \<^verbatim>\<open>aprocess_pdf_document_and_index\<close> carries an indexing status; a record returned by
  \<^verbatim>\<open>process_pdf_document\<close> carries none, which is where the claim fails.
\<close>

theorem returned_records_shape:
  "(\<exists>r. process_pdf_document fs self pdf_path = Inr r \<and> error r = None \<and>
        summary r \<noteq> None \<and> classification r \<noteq> None \<and> indexing_status r = None) \<and>
   (\<exists>res. aprocess_pdf_document_and_index fs self pdf_path = Inr res \<and>
      (\<forall>r. res = Some r \<longrightarrow>
         error r = None \<and> summary r \<noteq> None \<and> classification r \<noteq> None \<and>
         indexing_status r \<noteq> None))"
proof -
  obtain t where t: "extract_text_from_pdf fs pdf_path ''pypdf2'' = Inr t"
    using extract_text_never_raises by blast
  obtain d where d: "extract_metadata_from_pdf fs pdf_path = Inr d"
    using extract_metadata_never_raises by blast
  have sync: "\<exists>r. process_pdf_document fs self pdf_path = Inr r \<and> error r = None \<and>
        summary r \<noteq> None \<and> classification r \<noteq> None \<and> indexing_status r = None"
    by (simp add: process_pdf_document_result [OF t d] empty_record_def)
  have async: "\<exists>res. aprocess_pdf_document_and_index fs self pdf_path = Inr res \<and>
      (\<forall>r. res = Some r \<longrightarrow>
         error r = None \<and> summary r \<noteq> None \<and> classification r \<noteq> None \<and>
         indexing_status r \<noteq> None)"
  proof (cases "lightrag_instance self = None")
    case True
    then show ?thesis by (simp add: aprocess_pdf_document_and_index_def)
  next
    case False
    show ?thesis by (simp add: aprocess_result [OF t d False] empty_record_def)
  qed
  from sync async show ?thesis by blast
qed

theorem returned_records_shape_witness:
  "aprocess_pdf_document_and_index sample_fs ready_agent ''hello.pdf'' = Inr (Some hello_indexed) \<and>
   error hello_indexed = None \<and> summary hello_indexed \<noteq> None \<and>
   classification hello_indexed \<noteq> None \<and> indexing_status hello_indexed \<noteq> None"
proof -
  have run: "aprocess_pdf_document_and_index sample_fs ready_agent ''hello.pdf'' =
      Inr (Some hello_indexed)"
    by (simp add: sample_defs extractor_defs agent_defs)
  from returned_records_shape [of sample_fs ready_agent "''hello.pdf''"] run
  show ?thesis by simp
qed

text \<open>
  The synchronous operation returns, for the readable sample document, a record without
  error and without indexing status.
\<close>

theorem process_record_without_status_counterexample:
  "process_pdf_document sample_fs ready_agent ''hello.pdf'' = Inr hello_processed \<and>
   error hello_processed = None \<and> indexing_status hello_processed = None"
  by (simp add: sample_defs extractor_defs agent_defs)

section \<open>A path without a file\<close>

text \<open>
  Claim C3, as amended. The claim asks for an error record. \<^verbatim>\<open>extract_text_from_pdf\<close>
  answers a missing file with the empty string and \<^verbatim>\<open>extract_metadata_from_pdf\<close> with
  an error dictionary, so \<^verbatim>\<open>process_pdf_document\<close> goes on to the derivation: for every
  path at which \<^verbatim>\<open>open\<close> raises \<^verbatim>\<open>FileNotFoundError\<close> it returns, without raising, a
  record with no error field, the path under \<^verbatim>\<open>file_path\<close>, the dictionary
  \<^verbatim>\<open>{"Error": "File not found.", "FilePath": path}\<close> as metadata, the snippet
  \<^verbatim>\<open>"N/A"\<close>, a character count of 0, the no-text markers as summary and classification,
  and no indexing status.
\<close>

theorem process_missing_file:
  "fs pdf_path = Inl (FileNotFoundError msg) \<Longrightarrow>
   process_pdf_document fs self pdf_path =
     Inr \<lparr>error = None, path = None, file_path = Some pdf_path,
          metadata = Some [(''Error'', PyStr ''File not found.''), (''FilePath'', PyStr pdf_path)],
          extracted_text_snippet = Some ''N/A'',
          full_text_char_count = Some 0,
          summary = Some ''No text provided for summarization.'',
          classification = Some ''No text provided for classification.'',
          indexing_status = None\<rparr>"
  by (simp add: extractor_defs agent_defs)

theorem process_missing_file_witness:
  "sample_fs ''nowhere.pdf'' = Inl (FileNotFoundError ''No such file or directory'') \<and>
   process_pdf_document sample_fs new_agent ''nowhere.pdf'' = Inr missing_processed"
proof -
  have missing: "sample_fs ''nowhere.pdf'' = Inl (FileNotFoundError ''No such file or directory'')"
    by (simp add: sample_fs_def)
  from process_missing_file [where fs = sample_fs and pdf_path = "''nowhere.pdf''", OF missing, of new_agent]
    missing
  show ?thesis by (simp add: missing_processed_def)
qed

text \<open>
  At a path without a file the returned record has no error field, and its summary and
  classification are set.
\<close>

theorem process_missing_file_counterexample:
  "process_pdf_document sample_fs new_agent ''nowhere.pdf'' = Inr missing_processed \<and>
   error missing_processed = None \<and>
   summary missing_processed = Some ''No text provided for summarization.'' \<and>
   classification missing_processed = Some ''No text provided for classification.''"
  by (simp add: sample_defs extractor_defs agent_defs)

section \<open>One page reading Hello World\<close>

text \<open>
  Claim C4, as amended. For a document that opens, is not locked, and has one page whose
  text is \<^verbatim>\<open>Hello World\<close>, an agent with an engine binding gets back a record with a
  character count of 11, the placeholder summary and classification, and the status
  \<^verbatim>\<open>Simulated as successfully indexed by LightRAG\<close>. The snippet is not the text itself,
  as the claim has it: the source appends \<^verbatim>\<open>...\<close> to the snippet of every non-empty
  text, so it reads \<^verbatim>\<open>Hello World...\<close>.
\<close>

theorem aprocess_hello_world:
  assumes "fs pdf_path = Inr reader"
    and "\<not> (is_encrypted reader \<and> decrypt reader \<noteq> None)"
    and "pages reader = Inr [Inr ''Hello World'']"
    and "lightrag_instance self \<noteq> None"
  shows "\<exists>md. aprocess_pdf_document_and_index fs self pdf_path =
     Inr (Some \<lparr>error = None, path = None, file_path = Some pdf_path,
                metadata = Some md,
                extracted_text_snippet = Some ''Hello World...'',
                full_text_char_count = Some 11,
                summary = Some ''[Placeholder Summary]: Hello World'',
                classification = Some ''[Placeholder Classification]: General Legal Document'',
                indexing_status = Some ''Simulated as successfully indexed by LightRAG''\<rparr>)"
proof -
  have t: "extract_text_from_pdf fs pdf_path ''pypdf2'' = Inr ''Hello World''"
    using assms(1,2,3) by (auto simp: extract_text_from_pdf_def try_except_def read_text_def)
  obtain d where d: "extract_metadata_from_pdf fs pdf_path = Inr d"
    using extract_metadata_never_raises by blast
  show ?thesis
    by (simp add: aprocess_result [OF t d assms(4)] empty_record_def summarize_text_def
        classify_document_def)
qed

theorem aprocess_hello_world_witness:
  "sample_fs ''hello.pdf'' = Inr hello_reader \<and>
   \<not> (is_encrypted hello_reader \<and> decrypt hello_reader \<noteq> None) \<and>
   pages hello_reader = Inr [Inr ''Hello World''] \<and>
   lightrag_instance ready_agent \<noteq> None \<and>
   (\<exists>md. aprocess_pdf_document_and_index sample_fs ready_agent ''hello.pdf'' =
     Inr (Some \<lparr>error = None, path = None, file_path = Some ''hello.pdf'',
                metadata = Some md,
                extracted_text_snippet = Some ''Hello World...'',
                full_text_char_count = Some 11,
                summary = Some ''[Placeholder Summary]: Hello World'',
                classification = Some ''[Placeholder Classification]: General Legal Document'',
                indexing_status = Some ''Simulated as successfully indexed by LightRAG''\<rparr>))"
proof -
  have a: "sample_fs ''hello.pdf'' = Inr hello_reader"
    by (simp add: sample_fs_def)
  have b: "\<not> (is_encrypted hello_reader \<and> decrypt hello_reader \<noteq> None)"
    by (simp add: hello_reader_def)
  have c: "pages hello_reader = Inr [Inr ''Hello World'']"
    by (simp add: hello_reader_def)
  have d: "lightrag_instance ready_agent \<noteq> None"
    by (simp add: ready_agent_def)
  from aprocess_hello_world [where fs = sample_fs and pdf_path = "''hello.pdf''", OF a b c d]
    a b c d
  show ?thesis by blast
qed

text \<open>The snippet of the sample document is not its text.\<close>

theorem aprocess_hello_world_snippet_counterexample:
  "aprocess_pdf_document_and_index sample_fs ready_agent ''hello.pdf'' = Inr (Some hello_indexed) \<and>
   extracted_text_snippet hello_indexed = Some ''Hello World...'' \<and>
   extracted_text_snippet hello_indexed \<noteq> Some ''Hello World''"
  by (simp add: sample_defs extractor_defs agent_defs)

section \<open>The derivation stage\<close>

text \<open>
  Claim C5, as amended. For a non-empty text no longer than \<open>max_chars\<close> the summary is
  not the text itself: it is the marker \<^verbatim>\<open>[Placeholder Summary]: \<close> followed by the whole
  text, with no truncation marker after it.
\<close>

theorem summarize_short_text:
  "text \<noteq> [] \<Longrightarrow> int (length text) \<le> max_chars \<Longrightarrow>
   summarize_text text max_chars = ''[Placeholder Summary]: '' @ text"
  by (simp add: summarize_text_def)

theorem summarize_short_text_witness:
  "''abc'' \<noteq> [] \<and> int (length ''abc'') \<le> 5 \<and>
   summarize_text ''abc'' 5 = ''[Placeholder Summary]: '' @ ''abc''"
  using summarize_short_text [of "''abc''" 5] by simp

theorem summarize_short_text_counterexample:
  "summarize_text ''abc'' 5 \<noteq> ''abc''"
  by (simp add: summarize_text_def)

text \<open>
  Claim C6, as amended. For a non-empty text longer than \<open>max_chars\<close> the summary does
  not start with the text: it is the marker \<^verbatim>\<open>[Placeholder Summary]: \<close>, then the slice
  \<^verbatim>\<open>text[:max_chars]\<close>, then the truncation marker \<^verbatim>\<open>...\<close>. The slice is the first
  \<open>max_chars\<close> units of the text when \<open>max_chars\<close> is not negative.
\<close>

theorem summarize_long_text:
  "text \<noteq> [] \<Longrightarrow> int (length text) > max_chars \<Longrightarrow>
   summarize_text text max_chars =
     ''[Placeholder Summary]: '' @ slice_to text max_chars @ ''...'' \<and>
   (0 \<le> max_chars \<longrightarrow> slice_to text max_chars = take (nat max_chars) text)"
  by (simp add: summarize_text_def slice_to_def)

theorem summarize_long_text_witness:
  "''abcd'' \<noteq> [] \<and> int (length ''abcd'') > 2 \<and> (0::int) \<le> 2 \<and>
   summarize_text ''abcd'' 2 = ''[Placeholder Summary]: '' @ slice_to ''abcd'' 2 @ ''...'' \<and>
   slice_to ''abcd'' 2 = take (nat 2) ''abcd''"
  using summarize_long_text [of "''abcd''" 2] by simp

theorem summarize_long_text_counterexample:
  "summarize_text ''abcd'' 2 = ''[Placeholder Summary]: ab...'' \<and>
   take 2 (summarize_text ''abcd'' 2) \<noteq> take 2 ''abcd''"
  by (simp add: summarize_text_def slice_to_def)

text \<open>
  Claim C7. On the empty text, whatever \<open>max_chars\<close> is, \<^verbatim>\<open>_summarize_text\<close> returns
  \<^verbatim>\<open>No text provided for summarization.\<close> and \<^verbatim>\<open>_classify_document\<close> returns
  \<^verbatim>\<open>No text provided for classification.\<close>; neither result is the empty string.
\<close>

theorem no_input_markers:
  "summarize_text [] max_chars = ''No text provided for summarization.'' \<and>
   classify_document [] = ''No text provided for classification.'' \<and>
   summarize_text [] max_chars \<noteq> [] \<and> classify_document [] \<noteq> []"
  by (simp add: summarize_text_def classify_document_def)

section \<open>The extractors on files that cannot be read\<close>





section \<open>Initialising the engine binding twice\<close>

text \<open>
  Claim C9, as amended. \<^verbatim>\<open>initialize_lightrag\<close> does not look at the binding the agent
  already holds. After a first call that left a binding, a second call whose directory
  creation succeeds runs the constructors again: when they all succeed, the agent holds
  a newly constructed engine, different from the first one and bound to the working
  directory of the second call, and one more engine has been constructed; when one of
  them raises, the binding is reset to \<^verbatim>\<open>None\<close>. The second call does not raise.
\<close>

theorem initialize_lightrag_again:
  assumes "initialize_lightrag world1 dir1 s0 = Inr s1"
    and "lightrag_instance (this_agent s1) \<noteq> None"
    and "makedirs_result world2 = None"
  shows "\<exists>s2. initialize_lightrag world2 dir2 s1 = Inr s2 \<and>
     (if embedder_result world2 = None \<and> llm_result world2 = None \<and>
         lightrag_result world2 = None
      then lightrag_instance (this_agent s2) = Some (Engine (engines_constructed s1) dir2) \<and>
           lightrag_instance (this_agent s2) \<noteq> lightrag_instance (this_agent s1) \<and>
           engines_constructed s2 = Suc (engines_constructed s1)
      else lightrag_instance (this_agent s2) = None \<and>
           engines_constructed s2 = engines_constructed s1)"
proof -
  have first: "lightrag_instance (this_agent s1) = Some (Engine (engines_constructed s0) dir1) \<and>
      engines_constructed s1 = Suc (engines_constructed s0)"
    using assms(1,2)
    by (auto simp: initialize_lightrag_def try_except_def split: option.splits)
  show ?thesis
    using assms(3) first
    by (auto simp: initialize_lightrag_def try_except_def split: option.splits)
qed

theorem initialize_lightrag_again_witness:
  "initialize_lightrag all_succeed ''./lightrag_data'' fresh_state = Inr ready_state \<and>
   lightrag_instance (this_agent ready_state) \<noteq> None \<and>
   makedirs_result all_succeed = None \<and>
   (\<exists>s2. initialize_lightrag all_succeed ''./rag2'' ready_state = Inr s2 \<and>
      lightrag_instance (this_agent s2) = Some (Engine 1 ''./rag2'') \<and>
      lightrag_instance (this_agent s2) \<noteq> lightrag_instance (this_agent ready_state) \<and>
      engines_constructed s2 = 2)"
proof -
  have first: "initialize_lightrag all_succeed ''./lightrag_data'' fresh_state = Inr ready_state"
    by (simp add: initialize_lightrag_def try_except_def sample_defs)
  have bound: "lightrag_instance (this_agent ready_state) \<noteq> None"
    by (simp add: sample_defs)
  have dir_ok: "makedirs_result all_succeed = None"
    by (simp add: sample_defs)
  have ctors_ok: "embedder_result all_succeed = None \<and> llm_result all_succeed = None \<and>
      lightrag_result all_succeed = None"
    by (simp add: sample_defs)
  have count: "engines_constructed ready_state = 1"
    by (simp add: sample_defs)
  from initialize_lightrag_again [OF first bound dir_ok, of "''./rag2''"] ctors_ok count
  have "\<exists>s2. initialize_lightrag all_succeed ''./rag2'' ready_state = Inr s2 \<and>
      lightrag_instance (this_agent s2) = Some (Engine 1 ''./rag2'') \<and>
      lightrag_instance (this_agent s2) \<noteq> lightrag_instance (this_agent ready_state) \<and>
      engines_constructed s2 = 2"
    by (simp add: numeral_2_eq_2)
  with first bound dir_ok show ?thesis by blast
qed

text \<open>
  Two calls in a row that both succeed leave two different states: the second call has
  built a second engine. A second call that fails removes the binding of the first.
\<close>

theorem initialize_lightrag_idempotent_counterexample:
  "initialize_lightrag all_succeed ''./lightrag_data'' fresh_state = Inr ready_state \<and>
   initialize_lightrag all_succeed ''./lightrag_data'' ready_state = Inr rebuilt_state \<and>
   rebuilt_state \<noteq> ready_state \<and>
   engines_constructed rebuilt_state = 2 \<and>
   initialize_lightrag embedder_fails ''./lightrag_data'' ready_state = Inr reset_state \<and>
   lightrag_instance (this_agent reset_state) = None"
  by (simp add: initialize_lightrag_def try_except_def sample_defs)

section \<open>Methods other than pypdf2\<close>

text \<open>
  Claim C10. For every path and every method other than \<^verbatim>\<open>pypdf2\<close>,
  \<^verbatim>\<open>extract_text_from_pdf\<close> returns the empty string whatever the file system holds, so
  without reading anything; the result is the one the default method gives for a missing
  file and for a document without pages.
\<close>

theorem other_method_extracts_nothing:
  "method \<noteq> ''pypdf2'' \<Longrightarrow>
   extract_text_from_pdf fs pdf_path method = Inr [] \<and>
   extract_text_from_pdf fs pdf_path method =
     extract_text_from_pdf sample_fs ''nowhere.pdf'' ''pypdf2'' \<and>
   extract_text_from_pdf fs pdf_path method =
     extract_text_from_pdf sample_fs ''blank.pdf'' ''pypdf2''"
  by (simp add: extractor_defs sample_fs_def blank_reader_def)

theorem other_method_extracts_nothing_witness:
  "''pdfminer'' \<noteq> ''pypdf2'' \<and>
   extract_text_from_pdf sample_fs ''hello.pdf'' ''pdfminer'' = Inr [] \<and>
   extract_text_from_pdf sample_fs ''hello.pdf'' ''pypdf2'' = Inr ''Hello World''"
proof -
  have default: "extract_text_from_pdf sample_fs ''hello.pdf'' ''pypdf2'' = Inr ''Hello World''"
    by (simp add: extractor_defs sample_fs_def hello_reader_def)
  from other_method_extracts_nothing [of "''pdfminer''" sample_fs "''hello.pdf''"] default
  show ?thesis by simp
qed

end
